theory Spec2Isabelle
  imports Complex_Main
begin

section \<open>JavaScript values\<close>

text \<open>
  A JavaScript number is \<open>NaN\<close>, one of the two infinities, or a finite value. Every finite
  double is a rational, and the operations the program applies to numbers (comparison with
  0, \<open>Math.round\<close>, \<open>Math.max\<close> with 1) are exact on doubles, so finite values are
  rationals here. The sign of zero is not modelled.
\<close>

datatype jsnum = NaN | PosInf | NegInf | Fin rat

text \<open>
  The values a loosely typed field can hold: the primitives, and \<open>JObj\<close> for a plain
  object such as \<open>{}\<close>; arrays and other objects as field values are left out. A
  missing property reads as \<open>JUndefined\<close>. Strings are lists of 8-bit code units.
\<close>

datatype jsval = JUndefined | JNull | JBool bool | JNum jsnum | JStr string | JObj

datatype error = RangeError

text \<open>
  What the program takes from its runtime: the clock, the optional \<open>crypto.randomUUID\<close>
  (the function gives the value returned by the call made for a given index), and the
  built-in conversions between strings, numbers and dates, which are not part of the
  repository. A date is its time value in milliseconds; \<open>None\<close> is an invalid date.
\<close>

record Env =
  now :: int
  randomUUID :: "(nat \<Rightarrow> string) option"
  StringToNumber :: "string \<Rightarrow> jsnum"
  NumberToString :: "rat \<Rightarrow> string"
  DateParse :: "string \<Rightarrow> int option"
  toISOString :: "int \<Rightarrow> string"

subsection \<open>Built-in operations\<close>

fun Number_isFinite :: "jsnum \<Rightarrow> bool" where
  "Number_isFinite (Fin r) = True"
| "Number_isFinite _ = False"

text \<open>\<open>x > 0\<close> and \<open>x <= 0\<close> on numbers; both are false on \<open>NaN\<close>.\<close>

fun gt0 :: "jsnum \<Rightarrow> bool" where
  "gt0 (Fin r) = (0 < r)"
| "gt0 PosInf = True"
| "gt0 _ = False"

fun le0 :: "jsnum \<Rightarrow> bool" where
  "le0 (Fin r) = (r \<le> 0)"
| "le0 NegInf = True"
| "le0 _ = False"

text \<open>\<open>Math.round\<close>: the nearest integer, a tie going up.\<close>

fun Math_round :: "jsnum \<Rightarrow> jsnum" where
  "Math_round (Fin r) = Fin (of_int \<lfloor>r + 1 / 2\<rfloor>)"
| "Math_round n = n"

fun Math_max :: "jsnum \<Rightarrow> jsnum \<Rightarrow> jsnum" where
  "Math_max NaN _ = NaN"
| "Math_max _ NaN = NaN"
| "Math_max PosInf _ = PosInf"
| "Math_max _ PosInf = PosInf"
| "Math_max NegInf b = b"
| "Math_max a NegInf = a"
| "Math_max (Fin a) (Fin b) = Fin (max a b)"

text \<open>\<open>Number(v)\<close>, also the coercion of \<open>v <= 0\<close>.\<close>

fun toNumber :: "Env \<Rightarrow> jsval \<Rightarrow> jsnum" where
  "toNumber env JUndefined = NaN"
| "toNumber env JNull = Fin 0"
| "toNumber env (JBool b) = Fin (if b then 1 else 0)"
| "toNumber env (JNum n) = n"
| "toNumber env (JStr s) = StringToNumber env s"
| "toNumber env JObj = NaN"

text \<open>Truthiness of a value, as tested by \<open>v ? a : b\<close>.\<close>

fun truthy :: "jsval \<Rightarrow> bool" where
  "truthy JUndefined = False"
| "truthy JNull = False"
| "truthy (JBool b) = b"
| "truthy (JNum NaN) = False"
| "truthy (JNum (Fin r)) = (r \<noteq> 0)"
| "truthy (JNum _) = True"
| "truthy (JStr s) = (s \<noteq> [])"
| "truthy JObj = True"

text \<open>
  \<open>trim\<close> removes white space at both ends; among 8-bit code units that is the space,
  the tab, the line feed, the vertical tab, the form feed, the carriage return and the
  no-break space.
\<close>

definition isSpace :: "char \<Rightarrow> bool" where
  "isSpace c = (c \<in> {CHR '' '', CHR 0x09, CHR 0x0A, CHR 0x0B, CHR 0x0C, CHR 0x0D, CHR 0xA0})"

definition trim :: "string \<Rightarrow> string" where
  "trim s = rev (dropWhile isSpace (rev (dropWhile isSpace s)))"

text \<open>\<open>String(n)\<close> for an array index, and for an integer such as \<open>Date.now()\<close>.\<close>

definition digit :: "nat \<Rightarrow> char" where
  "digit d = ''0123456789'' ! d"

fun decimal :: "nat \<Rightarrow> string" where
  "decimal n = (if n < 10 then [digit n] else decimal (n div 10) @ [digit (n mod 10)])"

declare decimal.simps [simp del]

definition decimal_int :: "int \<Rightarrow> string" where
  "decimal_int i = (if i < 0 then CHR ''-'' # decimal (nat (- i)) else decimal (nat i))"

text \<open>
  Dates. \<open>TimeClip\<close> of a number: invalid when not finite or beyond 8.64e15 ms, else
  truncated to an integer. \<open>new Date(v)\<close> parses a string and clips a number.
  \<open>toISOString\<close> throws \<open>RangeError\<close> on an invalid date.
\<close>

definition truncate_rat :: "rat \<Rightarrow> int" where
  "truncate_rat r = (if r < 0 then \<lceil>r\<rceil> else \<lfloor>r\<rfloor>)"

fun TimeClip :: "jsnum \<Rightarrow> int option" where
  "TimeClip (Fin r) = (if \<bar>r\<bar> > 8640000000000000 then None else Some (truncate_rat r))"
| "TimeClip _ = None"

fun newDate :: "Env \<Rightarrow> jsval \<Rightarrow> int option" where
  "newDate env (JStr s) = DateParse env s"
| "newDate env JObj = DateParse env ''[object Object]''"
| "newDate env v = TimeClip (toNumber env v)"

definition Date_toISOString :: "Env \<Rightarrow> int option \<Rightarrow> error + string" where
  "Date_toISOString env d = (case d of None \<Rightarrow> Inl RangeError | Some t \<Rightarrow> Inr (toISOString env t))"

section \<open>Tasks\<close>

datatype Priority = High | Medium | Low

datatype Status = Todo | InProgress | Done

text \<open>
  Modelled from the spec: the \<open>Task\<close> type of \<open>@/types\<close>, whose declaration is not among
  the sources. The fields are those the code reads and writes; \<open>completedAt\<close> is optional.
\<close>

record Task =
  task_id :: string
  title :: string
  revenue :: jsnum
  timeTaken :: jsnum
  priority :: Priority
  status :: Status
  task_notes :: string
  createdAt :: string
  completedAt :: "string option"

text \<open>
  A loosely typed record: an element of the loaded array, the argument of \<open>addTask\<close>, or
  the patch of \<open>updateTask\<close>. An absent field is \<open>JUndefined\<close>.
\<close>

record AnyTask =
  raw_id :: jsval
  raw_title :: jsval
  raw_revenue :: jsval
  raw_timeTaken :: jsval
  raw_priority :: jsval
  raw_status :: jsval
  raw_notes :: jsval
  raw_createdAt :: jsval
  raw_completedAt :: jsval

definition emptyRecord :: AnyTask where
  "emptyRecord = \<lparr>raw_id = JUndefined, raw_title = JUndefined, raw_revenue = JUndefined,
     raw_timeTaken = JUndefined, raw_priority = JUndefined, raw_status = JUndefined,
     raw_notes = JUndefined, raw_createdAt = JUndefined, raw_completedAt = JUndefined\<rparr>"

subsection \<open>The per-field rules\<close>

text \<open>
  The expressions that \<open>normalizeTasks\<close>, \<open>addTask\<close> and \<open>updateTask\<close> repeat inline.
  \<open>suppliedId\<close>: \<open>typeof t.id === 'string' && t.id.trim() ? t.id.trim() : undefined\<close>.
\<close>

fun suppliedId :: "jsval \<Rightarrow> string option" where
  "suppliedId (JStr s) = (if trim s \<noteq> [] then Some (trim s) else None)"
| "suppliedId _ = None"

text \<open>\<open>typeof v === 'string' && v.trim() ? v.trim() : 'Untitled Task'\<close>\<close>

fun titleOf :: "jsval \<Rightarrow> string" where
  "titleOf (JStr s) = (if trim s \<noteq> [] then trim s else ''Untitled Task'')"
| "titleOf _ = ''Untitled Task''"

text \<open>\<open>Number.isFinite(r) ? r : d\<close>\<close>

definition revenueOf :: "jsnum \<Rightarrow> jsnum \<Rightarrow> jsnum" where
  "revenueOf r d = (if Number_isFinite r then r else d)"

text \<open>\<open>Number.isFinite(tt) && tt > 0 ? Math.max(1, Math.round(tt)) : d\<close>\<close>

definition timeTakenOf :: "jsnum \<Rightarrow> jsnum \<Rightarrow> jsnum" where
  "timeTakenOf tt d = (if Number_isFinite tt \<and> gt0 tt then Math_max (Fin 1) (Math_round tt) else d)"

text \<open>\<open>(v === 'High' || v === 'Medium' || v === 'Low') ? v : d\<close>\<close>

definition priorityOf :: "jsval \<Rightarrow> Priority \<Rightarrow> Priority" where
  "priorityOf v d = (if v = JStr ''High'' then High else if v = JStr ''Medium'' then Medium
     else if v = JStr ''Low'' then Low else d)"

text \<open>\<open>(v === 'Todo' || v === 'In Progress' || v === 'Done') ? v : d\<close>\<close>

definition statusOf :: "jsval \<Rightarrow> Status \<Rightarrow> Status" where
  "statusOf v d = (if v = JStr ''Todo'' then Todo else if v = JStr ''In Progress'' then InProgress
     else if v = JStr ''Done'' then Done else d)"

text \<open>\<open>typeof v === 'string' ? v : d\<close>\<close>

fun notesOf :: "jsval \<Rightarrow> string \<Rightarrow> string" where
  "notesOf (JStr s) d = s"
| "notesOf _ d = d"

section \<open>normalizeTasks\<close>

text \<open>
  The synthetic date \<open>new Date(now - (idx + 1) * 24 * 3600 * 1000)\<close>. The arithmetic is
  on integers, and exact on doubles for every array of fewer than 10^8 elements.
\<close>

definition fallbackDate :: "Env \<Rightarrow> nat \<Rightarrow> int option" where
  "fallbackDate env idx = TimeClip (Fin (of_int (now env - (int idx + 1) * 24 * 3600 * 1000)))"

text \<open>\<open>new Date(new Date(createdAt).getTime() + 24 * 3600 * 1000)\<close>; \<open>NaN\<close> stays invalid.\<close>

definition dayAfter :: "Env \<Rightarrow> string \<Rightarrow> int option" where
  "dayAfter env c = (case DateParse env c of None \<Rightarrow> None
     | Some ms \<Rightarrow> TimeClip (Fin (of_int (ms + 24 * 3600 * 1000))))"

text \<open>\<open>!completedAt\<close>: undefined or the empty string.\<close>

definition absent :: "string option \<Rightarrow> bool" where
  "absent c = (c = None \<or> c = Some [])"

text \<open>
  The id given to the record at index \<open>idx\<close>, with the ids \<open>seen\<close> so far: the supplied
  one, else a generated one; suffixed with the index when it is in \<open>seen\<close>.
\<close>

definition normalizeId :: "Env \<Rightarrow> nat \<Rightarrow> string set \<Rightarrow> AnyTask \<Rightarrow> string" where
  "normalizeId env idx seen t =
     (let id1 = (case suppliedId (raw_id t) of Some i \<Rightarrow> i
                 | None \<Rightarrow> (case randomUUID env of Some uuid \<Rightarrow> uuid idx
                             | None \<Rightarrow> ''task-'' @ decimal_int (now env) @ ''-'' @ decimal idx))
      in if id1 \<in> seen then id1 @ ''-'' @ decimal idx else id1)"

text \<open>\<open>typeof v === 'string' ? v : undefined\<close>\<close>

fun stringOrUndefined :: "jsval \<Rightarrow> string option" where
  "stringOrUndefined (JStr s) = Some s"
| "stringOrUndefined _ = None"

text \<open>One turn of the loop body, up to the record pushed to \<open>out\<close>.\<close>

definition normalizeRecord :: "Env \<Rightarrow> nat \<Rightarrow> string set \<Rightarrow> AnyTask \<Rightarrow> error + Task" where
  "normalizeRecord env idx seen t =
     (let tid = normalizeId env idx seen t;
          ttl = titleOf (raw_title t);
          safeRevenue = revenueOf (toNumber env (raw_revenue t)) (Fin 0);
          tt = timeTakenOf (toNumber env (raw_timeTaken t)) (Fin 1);
          prio = priorityOf (raw_priority t) Low;
          st = statusOf (raw_status t) Todo;
          nts = notesOf (raw_notes t) [];
          created = (if truthy (raw_createdAt t) then newDate env (raw_createdAt t)
                     else fallbackDate env idx)
      in case (if created = None then Date_toISOString env (fallbackDate env idx)
               else Date_toISOString env created) of
           Inl e \<Rightarrow> Inl e
         | Inr cAt \<Rightarrow>
             (let completed0 = stringOrUndefined (raw_completedAt t)
              in case (if absent completed0 \<and> st = Done
                       then map_sum id Some (Date_toISOString env (dayAfter env cAt))
                       else Inr completed0) of
                   Inl e \<Rightarrow> Inl e
                 | Inr completed \<Rightarrow>
                     Inr \<lparr>task_id = tid, title = ttl, revenue = safeRevenue, timeTaken = tt,
                          priority = prio, status = st, task_notes = nts, createdAt = cAt,
                          completedAt = completed\<rparr>))"

text \<open>\<open>arr[idx] ?? {}\<close>: an element that is \<open>null\<close> or \<open>undefined\<close> is read as \<open>{}\<close>.\<close>

definition orEmpty :: "AnyTask option \<Rightarrow> AnyTask" where
  "orEmpty x = (case x of None \<Rightarrow> emptyRecord | Some t \<Rightarrow> t)"

text \<open>\<open>Array.isArray(input) ? input : []\<close>: the input is \<open>None\<close> when it is not an array.\<close>

definition inputArray :: "AnyTask option list option \<Rightarrow> AnyTask option list" where
  "inputArray input = (case input of None \<Rightarrow> [] | Some arr \<Rightarrow> arr)"

text \<open>
  The loop over the array: the index, the set \<open>seen\<close> and the list \<open>out\<close> are its state.
\<close>

fun normalizeLoop :: "Env \<Rightarrow> AnyTask option list \<Rightarrow> nat \<Rightarrow> string set \<Rightarrow> Task list
    \<Rightarrow> error + Task list" where
  "normalizeLoop env [] idx seen out = Inr out"
| "normalizeLoop env (x # xs) idx seen out =
     (case normalizeRecord env idx seen (orEmpty x) of
        Inl e \<Rightarrow> Inl e
      | Inr task \<Rightarrow> normalizeLoop env xs (Suc idx) (insert (task_id task) seen) (out @ [task]))"

definition normalizeTasks :: "Env \<Rightarrow> AnyTask option list option \<Rightarrow> error + Task list" where
  "normalizeTasks env input = normalizeLoop env (inputArray input) 0 {} []"

section \<open>The store\<close>

text \<open>
  The two pieces of state the operations touch. \<open>addTask\<close>, \<open>updateTask\<close> and
  \<open>deleteTask\<close> go through updater functions of the current state, so they are functions
  of the store. \<open>undoDelete\<close> also reads \<open>lastDeleted\<close> as the render that made the
  callback captured it (the callback is rebuilt when \<open>lastDeleted\<close> changes); that value
  is an argument of its own.
\<close>

record Store =
  tasks :: "Task list"
  lastDeleted :: "Task option"

definition addTask :: "Env \<Rightarrow> AnyTask \<Rightarrow> Store \<Rightarrow> Store" where
  "addTask env task s =
     (let prev = tasks s;
          id1 = (case suppliedId (raw_id task) of Some i \<Rightarrow> i
                 | None \<Rightarrow> (case randomUUID env of Some uuid \<Rightarrow> uuid 0
                             | None \<Rightarrow> ''task-'' @ decimal_int (now env)));
          tid = (if id1 \<in> set (map task_id prev) then id1 @ ''-'' @ decimal (length prev) else id1);
          ttl = titleOf (raw_title task);
          safeRevenue = revenueOf (toNumber env (raw_revenue task)) (Fin 0);
          tt = timeTakenOf (toNumber env (raw_timeTaken task)) (Fin 1);
          prio = priorityOf (raw_priority task) Low;
          st = statusOf (raw_status task) Todo;
          nts = notesOf (raw_notes task) [];
          cAt = toISOString env (now env);
          completed = (if st = Done then Some cAt else None)
      in s\<lparr>tasks := prev @ [\<lparr>task_id = tid, title = ttl, revenue = safeRevenue, timeTaken = tt,
            priority = prio, status = st, task_notes = nts, createdAt = cAt,
            completedAt = completed\<rparr>]\<rparr>)"

text \<open>
  The first \<open>map\<close> of \<open>updateTask\<close>, on the task whose id is the target: the
  statements that sanitize the patch, one after the other on the copy \<open>merged\<close> of the
  task, then the two that keep \<open>completedAt\<close> in step with the status.
\<close>

definition patchTitle :: "AnyTask \<Rightarrow> Task \<Rightarrow> Task" where
  "patchTitle patch merged =
     (if raw_title patch \<noteq> JUndefined then merged\<lparr>title := titleOf (raw_title patch)\<rparr>
      else merged)"

definition patchRevenue :: "Env \<Rightarrow> AnyTask \<Rightarrow> Task \<Rightarrow> Task" where
  "patchRevenue env patch merged =
     (if raw_revenue patch \<noteq> JUndefined
      then merged\<lparr>revenue := revenueOf (toNumber env (raw_revenue patch)) (revenue merged)\<rparr>
      else merged)"

definition patchTimeTaken :: "Env \<Rightarrow> AnyTask \<Rightarrow> Task \<Rightarrow> Task" where
  "patchTimeTaken env patch merged =
     (if raw_timeTaken patch \<noteq> JUndefined
      then merged\<lparr>timeTaken := timeTakenOf (toNumber env (raw_timeTaken patch)) (timeTaken merged)\<rparr>
      else merged)"

definition patchPriority :: "AnyTask \<Rightarrow> Task \<Rightarrow> Task" where
  "patchPriority patch merged =
     (if raw_priority patch \<noteq> JUndefined
      then merged\<lparr>priority := priorityOf (raw_priority patch) (priority merged)\<rparr>
      else merged)"

definition patchStatus :: "AnyTask \<Rightarrow> Task \<Rightarrow> Task" where
  "patchStatus patch merged =
     (if raw_status patch \<noteq> JUndefined
      then merged\<lparr>status := statusOf (raw_status patch) (status merged)\<rparr>
      else merged)"

definition patchNotes :: "AnyTask \<Rightarrow> Task \<Rightarrow> Task" where
  "patchNotes patch merged =
     (if raw_notes patch \<noteq> JUndefined
      then merged\<lparr>task_notes := notesOf (raw_notes patch) (task_notes merged)\<rparr>
      else merged)"

text \<open>If the status moved to \<open>Done\<close>, set \<open>completedAt\<close>.\<close>

definition setCompleted :: "Env \<Rightarrow> Task \<Rightarrow> Task \<Rightarrow> Task" where
  "setCompleted env t merged =
     (if status t \<noteq> Done \<and> status merged = Done \<and> absent (completedAt merged)
      then merged\<lparr>completedAt := Some (toISOString env (now env))\<rparr> else merged)"

text \<open>If the status moved away from \<open>Done\<close>, clear \<open>completedAt\<close>.\<close>

definition clearCompleted :: "Task \<Rightarrow> Task \<Rightarrow> Task" where
  "clearCompleted t merged =
     (if status t = Done \<and> status merged \<noteq> Done then merged\<lparr>completedAt := None\<rparr>
      else merged)"

definition mergePatch :: "Env \<Rightarrow> AnyTask \<Rightarrow> Task \<Rightarrow> Task" where
  "mergePatch env patch t =
     clearCompleted t (setCompleted env t (patchNotes patch (patchStatus patch
       (patchPriority patch (patchTimeTaken env patch (patchRevenue env patch
         (patchTitle patch t)))))))"

text \<open>\<open>a ?? b\<close>\<close>

definition nullish :: "jsval \<Rightarrow> jsval \<Rightarrow> jsval" where
  "nullish a b = (if a = JUndefined \<or> a = JNull then b else a)"

definition updateTask :: "Env \<Rightarrow> string \<Rightarrow> AnyTask \<Rightarrow> Store \<Rightarrow> Store" where
  "updateTask env tid patch s =
     (let next = map (\<lambda>t. if task_id t \<noteq> tid then t else mergePatch env patch t) (tasks s)
      in s\<lparr>tasks := map (\<lambda>t. if task_id t = tid
                \<and> le0 (toNumber env (nullish (raw_timeTaken patch) (JNum (timeTaken t))))
              then t\<lparr>timeTaken := Fin 1\<rparr> else t) next\<rparr>)"

definition deleteTask :: "string \<Rightarrow> Store \<Rightarrow> Store" where
  "deleteTask tid s =
     \<lparr>tasks = filter (\<lambda>t. task_id t \<noteq> tid) (tasks s),
      lastDeleted = find (\<lambda>t. task_id t = tid) (tasks s)\<rparr>"

definition undoDelete :: "Task option \<Rightarrow> Store \<Rightarrow> Store" where
  "undoDelete captured s = (case captured of None \<Rightarrow> s
     | Some t \<Rightarrow> \<lparr>tasks = tasks s @ [t], lastDeleted = None\<rparr>)"

text \<open>
  \<open>undoDelete\<close> called through the callback of the render that shows the state \<open>s\<close>:
  the captured value is the slot of \<open>s\<close>.
\<close>

definition undoDelete_rendered :: "Store \<Rightarrow> Store" where
  "undoDelete_rendered s = undoDelete (lastDeleted s) s"

definition clearLastDeleted :: "Store \<Rightarrow> Store" where
  "clearLastDeleted s = s\<lparr>lastDeleted := None\<rparr>"

section \<open>CSV export\<close>

text \<open>
  \<open>escapeCsv\<close> is given strings only, so its test \<open>v == null\<close> is never true; the
  pattern matches the double quote, the comma, the line feed and the carriage return.
\<close>

definition escapeCsv :: "string \<Rightarrow> string" where
  "escapeCsv v =
     (let needsQuote = list_ex (\<lambda>c. c \<in> {CHR 0x22, CHR '','', CHR 0x0A, CHR 0x0D}) v;
          escaped = concat (map (\<lambda>c. if c = CHR 0x22 then [CHR 0x22, CHR 0x22] else [c]) v)
      in if needsQuote then [CHR 0x22] @ escaped @ [CHR 0x22] else escaped)"

fun join :: "string \<Rightarrow> string list \<Rightarrow> string" where
  "join sep [] = []"
| "join sep [x] = x"
| "join sep (x # y # ys) = x @ sep @ join sep (y # ys)"

text \<open>\<open>String(Number.isFinite(n) ? n : '')\<close>\<close>

fun numberField :: "Env \<Rightarrow> jsnum \<Rightarrow> string" where
  "numberField env (Fin r) = NumberToString env r"
| "numberField env _ = []"

text \<open>The strings that the two enumerations are in the program.\<close>

fun priorityText :: "Priority \<Rightarrow> string" where
  "priorityText High = ''High''"
| "priorityText Medium = ''Medium''"
| "priorityText Low = ''Low''"

fun statusText :: "Status \<Rightarrow> string" where
  "statusText Todo = ''Todo''"
| "statusText InProgress = ''In Progress''"
| "statusText Done = ''Done''"

definition csvRow :: "Env \<Rightarrow> Task \<Rightarrow> string list" where
  "csvRow env t = [task_id t, escapeCsv (title t), numberField env (revenue t),
     numberField env (timeTaken t), priorityText (priority t), statusText (status t),
     escapeCsv (task_notes t)]"

definition headers :: "string list" where
  "headers = [''id'', ''title'', ''revenue'', ''timeTaken'', ''priority'', ''status'', ''notes'']"

definition toCSV :: "Env \<Rightarrow> Task list \<Rightarrow> string" where
  "toCSV env ts = join [CHR 0x0A] (join '','' headers # map (\<lambda>r. join '','' r) (map (csvRow env) ts))"

section \<open>The rules as the specification words them\<close>

text \<open>
  The \<open>timeTaken\<close> rule: 1 when the coerced number is not finite or not above 0, else the
  number rounded to the nearest integer and floored at 1.
\<close>

definition specTimeTaken :: "jsnum \<Rightarrow> jsnum" where
  "specTimeTaken x = (case x of Fin r \<Rightarrow> if 0 < r then Fin (of_int (max 1 (round r))) else Fin 1
     | _ \<Rightarrow> Fin 1)"

text \<open>An integer that is at least 1.\<close>

definition wholeTime :: "jsnum \<Rightarrow> bool" where
  "wholeTime x = (case x of Fin r \<Rightarrow> 1 \<le> r \<and> of_int \<lfloor>r\<rfloor> = r | _ \<Rightarrow> False)"

text \<open>\<open>completedAt\<close> is present exactly when the status is \<open>Done\<close>.\<close>

definition completedIffDone :: "Task \<Rightarrow> bool" where
  "completedIffDone t = ((completedAt t \<noteq> None) = (status t = Done))"

section \<open>Concrete inputs\<close>

text \<open>
  An environment to run the definitions in: the clock at 1700000000000 ms, no
  \<open>crypto.randomUUID\<close>, and simple stand-ins for the built-in conversions. The stand-ins
  read and print non-negative integers in decimal and take a timestamp string to be its
  time value in decimal, so that printing a date and parsing it again gives the date back.
\<close>

definition parseDigits :: "string \<Rightarrow> nat option" where
  "parseDigits s = (if s \<noteq> [] \<and> list_all (\<lambda>c. c \<in> set ''0123456789'') s
     then Some (foldl (\<lambda>a c. 10 * a + (of_char c - 48)) 0 s) else None)"

definition sampleStringToNumber :: "string \<Rightarrow> jsnum" where
  "sampleStringToNumber s = (if s = [] then Fin 0
     else case parseDigits s of Some n \<Rightarrow> Fin (of_nat n) | None \<Rightarrow> NaN)"

definition sampleNumberToString :: "rat \<Rightarrow> string" where
  "sampleNumberToString r = decimal_int \<lfloor>r\<rfloor>"

definition sampleDateParse :: "string \<Rightarrow> int option" where
  "sampleDateParse s = map_option int (parseDigits s)"

definition sampleEnv :: Env where
  "sampleEnv = \<lparr>now = 1700000000000, randomUUID = None,
     StringToNumber = sampleStringToNumber, NumberToString = sampleNumberToString,
     DateParse = sampleDateParse, toISOString = decimal_int\<rparr>"

definition emptyStore :: Store where
  "emptyStore = \<lparr>tasks = [], lastDeleted = None\<rparr>"

text \<open>The record \<open>{ id: i }\<close>.\<close>

definition withId :: "string \<Rightarrow> AnyTask" where
  "withId i = emptyRecord\<lparr>raw_id := JStr i\<rparr>"

text \<open>A record with every field supplied, and a store holding two tasks.\<close>

definition sampleRecord :: AnyTask where
  "sampleRecord = \<lparr>raw_id = JStr ''b'', raw_title = JStr '' Ship it '', raw_revenue = JNum (Fin 100),
     raw_timeTaken = JNum (Fin (5 / 2)), raw_priority = JStr ''High'', raw_status = JStr ''Done'',
     raw_notes = JStr ''call back'', raw_createdAt = JUndefined, raw_completedAt = JUndefined\<rparr>"

definition sampleStore :: Store where
  "sampleStore = addTask sampleEnv sampleRecord (addTask sampleEnv (withId ''a'') emptyStore)"

text \<open>An array to normalize, with a hole and out-of-range values, and its result.\<close>

definition sampleInput :: "AnyTask option list option" where
  "sampleInput = Some [Some sampleRecord, None,
     Some (emptyRecord\<lparr>raw_timeTaken := JNum (Fin (- 4)), raw_priority := JStr ''Urgent'',
       raw_status := JStr ''In Progress'', raw_completedAt := JStr ''2024-01-01T00:00:00.000Z''\<rparr>)]"

definition sampleOutput :: "Task list" where
  "sampleOutput =
     [\<lparr>task_id = ''b'', title = ''Ship it'', revenue = Fin 100, timeTaken = Fin 3,
       priority = High, status = Done, task_notes = ''call back'',
       createdAt = ''1699913600000'', completedAt = Some ''1700000000000''\<rparr>,
      \<lparr>task_id = ''task-1700000000000-1'', title = ''Untitled Task'', revenue = Fin 0,
       timeTaken = Fin 1, priority = Low, status = Todo, task_notes = [],
       createdAt = ''1699827200000'', completedAt = None\<rparr>,
      \<lparr>task_id = ''task-1700000000000-2'', title = ''Untitled Task'', revenue = Fin 0,
       timeTaken = Fin 1, priority = Low, status = InProgress, task_notes = [],
       createdAt = ''1699740800000'', completedAt = Some ''2024-01-01T00:00:00.000Z''\<rparr>]"

section \<open>Running the definitions\<close>

lemmas run_defs = normalizeTasks_def normalizeRecord_def normalizeId_def Let_def
  orEmpty_def inputArray_def
  fallbackDate_def dayAfter_def absent_def Date_toISOString_def truncate_rat_def
  decimal_int_def decimal.simps digit_def trim_def isSpace_def
  revenueOf_def timeTakenOf_def priorityOf_def statusOf_def
  emptyRecord_def withId_def emptyStore_def sampleRecord_def
  sampleEnv_def sampleStringToNumber_def sampleNumberToString_def sampleDateParse_def
  parseDigits_def addTask_def updateTask_def mergePatch_def nullish_def deleteTask_def
  undoDelete_def undoDelete_rendered_def patchTitle_def patchRevenue_def patchTimeTaken_def patchPriority_def
  patchStatus_def patchNotes_def setCompleted_def clearCompleted_def

lemma sampleStore_tasks:
  "sampleStore = \<lparr>tasks =
     [\<lparr>task_id = ''a'', title = ''Untitled Task'', revenue = Fin 0, timeTaken = Fin 1,
       priority = Low, status = Todo, task_notes = [], createdAt = ''1700000000000'',
       completedAt = None\<rparr>,
      \<lparr>task_id = ''b'', title = ''Ship it'', revenue = Fin 100, timeTaken = Fin 3,
       priority = High, status = Done, task_notes = ''call back'',
       createdAt = ''1700000000000'', completedAt = Some ''1700000000000''\<rparr>],
     lastDeleted = None\<rparr>"
  by (simp add: sampleStore_def run_defs)

section \<open>The fields of a patched task\<close>

lemma patchTitle_fields [simp]:
  "task_id (patchTitle patch m) = task_id m"
  "title (patchTitle patch m)
     = (if raw_title patch \<noteq> JUndefined then titleOf (raw_title patch) else title m)"
  "revenue (patchTitle patch m) = revenue m"
  "timeTaken (patchTitle patch m) = timeTaken m"
  "priority (patchTitle patch m) = priority m"
  "status (patchTitle patch m) = status m"
  "task_notes (patchTitle patch m) = task_notes m"
  "createdAt (patchTitle patch m) = createdAt m"
  "completedAt (patchTitle patch m) = completedAt m"
  by (simp_all add: patchTitle_def)

lemma patchRevenue_fields [simp]:
  "task_id (patchRevenue env patch m) = task_id m"
  "title (patchRevenue env patch m) = title m"
  "revenue (patchRevenue env patch m)
     = (if raw_revenue patch \<noteq> JUndefined
        then revenueOf (toNumber env (raw_revenue patch)) (revenue m) else revenue m)"
  "timeTaken (patchRevenue env patch m) = timeTaken m"
  "priority (patchRevenue env patch m) = priority m"
  "status (patchRevenue env patch m) = status m"
  "task_notes (patchRevenue env patch m) = task_notes m"
  "createdAt (patchRevenue env patch m) = createdAt m"
  "completedAt (patchRevenue env patch m) = completedAt m"
  by (simp_all add: patchRevenue_def)

lemma patchTimeTaken_fields [simp]:
  "task_id (patchTimeTaken env patch m) = task_id m"
  "title (patchTimeTaken env patch m) = title m"
  "revenue (patchTimeTaken env patch m) = revenue m"
  "timeTaken (patchTimeTaken env patch m)
     = (if raw_timeTaken patch \<noteq> JUndefined
        then timeTakenOf (toNumber env (raw_timeTaken patch)) (timeTaken m) else timeTaken m)"
  "priority (patchTimeTaken env patch m) = priority m"
  "status (patchTimeTaken env patch m) = status m"
  "task_notes (patchTimeTaken env patch m) = task_notes m"
  "createdAt (patchTimeTaken env patch m) = createdAt m"
  "completedAt (patchTimeTaken env patch m) = completedAt m"
  by (simp_all add: patchTimeTaken_def)

lemma patchPriority_fields [simp]:
  "task_id (patchPriority patch m) = task_id m"
  "title (patchPriority patch m) = title m"
  "revenue (patchPriority patch m) = revenue m"
  "timeTaken (patchPriority patch m) = timeTaken m"
  "priority (patchPriority patch m)
     = (if raw_priority patch \<noteq> JUndefined
        then priorityOf (raw_priority patch) (priority m) else priority m)"
  "status (patchPriority patch m) = status m"
  "task_notes (patchPriority patch m) = task_notes m"
  "createdAt (patchPriority patch m) = createdAt m"
  "completedAt (patchPriority patch m) = completedAt m"
  by (simp_all add: patchPriority_def)

lemma patchStatus_fields [simp]:
  "task_id (patchStatus patch m) = task_id m"
  "title (patchStatus patch m) = title m"
  "revenue (patchStatus patch m) = revenue m"
  "timeTaken (patchStatus patch m) = timeTaken m"
  "priority (patchStatus patch m) = priority m"
  "status (patchStatus patch m)
     = (if raw_status patch \<noteq> JUndefined
        then statusOf (raw_status patch) (status m) else status m)"
  "task_notes (patchStatus patch m) = task_notes m"
  "createdAt (patchStatus patch m) = createdAt m"
  "completedAt (patchStatus patch m) = completedAt m"
  by (simp_all add: patchStatus_def)

lemma patchNotes_fields [simp]:
  "task_id (patchNotes patch m) = task_id m"
  "title (patchNotes patch m) = title m"
  "revenue (patchNotes patch m) = revenue m"
  "timeTaken (patchNotes patch m) = timeTaken m"
  "priority (patchNotes patch m) = priority m"
  "status (patchNotes patch m) = status m"
  "task_notes (patchNotes patch m)
     = (if raw_notes patch \<noteq> JUndefined
        then notesOf (raw_notes patch) (task_notes m) else task_notes m)"
  "createdAt (patchNotes patch m) = createdAt m"
  "completedAt (patchNotes patch m) = completedAt m"
  by (simp_all add: patchNotes_def)

lemma setCompleted_fields [simp]:
  "task_id (setCompleted env t m) = task_id m"
  "title (setCompleted env t m) = title m"
  "revenue (setCompleted env t m) = revenue m"
  "timeTaken (setCompleted env t m) = timeTaken m"
  "priority (setCompleted env t m) = priority m"
  "status (setCompleted env t m) = status m"
  "task_notes (setCompleted env t m) = task_notes m"
  "createdAt (setCompleted env t m) = createdAt m"
  by (simp_all add: setCompleted_def)

lemma clearCompleted_fields [simp]:
  "task_id (clearCompleted t m) = task_id m"
  "title (clearCompleted t m) = title m"
  "revenue (clearCompleted t m) = revenue m"
  "timeTaken (clearCompleted t m) = timeTaken m"
  "priority (clearCompleted t m) = priority m"
  "status (clearCompleted t m) = status m"
  "task_notes (clearCompleted t m) = task_notes m"
  "createdAt (clearCompleted t m) = createdAt m"
  by (simp_all add: clearCompleted_def)

lemma mergePatch_fields:
  "task_id (mergePatch env patch t) = task_id t"
  "title (mergePatch env patch t)
     = (if raw_title patch \<noteq> JUndefined then titleOf (raw_title patch) else title t)"
  "revenue (mergePatch env patch t)
     = (if raw_revenue patch \<noteq> JUndefined
        then revenueOf (toNumber env (raw_revenue patch)) (revenue t) else revenue t)"
  "timeTaken (mergePatch env patch t)
     = (if raw_timeTaken patch \<noteq> JUndefined
        then timeTakenOf (toNumber env (raw_timeTaken patch)) (timeTaken t) else timeTaken t)"
  "priority (mergePatch env patch t)
     = (if raw_priority patch \<noteq> JUndefined
        then priorityOf (raw_priority patch) (priority t) else priority t)"
  "status (mergePatch env patch t)
     = (if raw_status patch \<noteq> JUndefined
        then statusOf (raw_status patch) (status t) else status t)"
  "task_notes (mergePatch env patch t)
     = (if raw_notes patch \<noteq> JUndefined
        then notesOf (raw_notes patch) (task_notes t) else task_notes t)"
  "createdAt (mergePatch env patch t) = createdAt t"
  by (simp_all add: mergePatch_def)

lemma task_id_mergePatch [simp]: "task_id (mergePatch env patch t) = task_id t"
  by (simp add: mergePatch_fields)


section \<open>Unknown ids\<close>

lemma updateTask_absent:
  assumes "tid \<notin> task_id ` set (tasks s)"
  shows "updateTask env tid patch s = s"
proof -
  have other: "\<forall>t \<in> set (tasks s). task_id t \<noteq> tid"
    using assms by auto
  then have "map (\<lambda>t. if task_id t \<noteq> tid then t else mergePatch env patch t) (tasks s) = tasks s"
    by (simp add: map_idI)
  moreover have "map (\<lambda>t. if task_id t = tid
                \<and> le0 (toNumber env (nullish (raw_timeTaken patch) (JNum (timeTaken t))))
              then t\<lparr>timeTaken := Fin 1\<rparr> else t) (tasks s) = tasks s"
    using other by (simp add: map_idI)
  ultimately show ?thesis
    by (simp add: updateTask_def Let_def)
qed

lemma deleteTask_absent:
  assumes "tid \<notin> task_id ` set (tasks s)"
  shows "deleteTask tid s = s\<lparr>lastDeleted := None\<rparr>"
proof -
  have other: "\<forall>t \<in> set (tasks s). task_id t \<noteq> tid"
    using assms by auto
  then have "filter (\<lambda>t. task_id t \<noteq> tid) (tasks s) = tasks s"
    by simp
  moreover have "find (\<lambda>t. task_id t = tid) (tasks s) = None"
    using other by (simp add: find_None_iff)
  ultimately show ?thesis
    by (simp add: deleteTask_def)
qed

text \<open>
  C4, as the code has it: for an id that no task of the collection carries, \<open>updateTask\<close>
  leaves the collection and the undo slot as they are, and \<open>deleteTask\<close> leaves the
  collection as it is and empties the undo slot. Neither raises an error.
\<close>

theorem unknown_id_update_delete:
  "tid \<notin> task_id ` set (tasks s) \<Longrightarrow>
     updateTask env tid patch s = s \<and> deleteTask tid s = s\<lparr>lastDeleted := None\<rparr>"
  by (simp add: updateTask_absent deleteTask_absent)

theorem unknown_id_update_delete_witness:
  "''zzz'' \<notin> task_id ` set (tasks sampleStore) \<and>
   updateTask sampleEnv ''zzz'' (emptyRecord\<lparr>raw_title := JStr ''New''\<rparr>) sampleStore = sampleStore \<and>
   deleteTask ''zzz'' sampleStore = sampleStore\<lparr>lastDeleted := None\<rparr>"
proof -
  have h: "''zzz'' \<notin> task_id ` set (tasks sampleStore)"
    by (simp add: sampleStore_tasks)
  show ?thesis
    using h unknown_id_update_delete [OF h] by simp
qed

text \<open>
  C4 as stated fails: after \<open>deleteTask ''a''\<close> the slot holds the removed task, and a
  \<open>deleteTask\<close> with the unknown id \<open>zzz\<close> changes the state by emptying the slot.
\<close>

theorem deleteTask_unknown_id_clears_slot:
  "lastDeleted (deleteTask ''a'' sampleStore) \<noteq> None \<and>
   ''zzz'' \<notin> task_id ` set (tasks (deleteTask ''a'' sampleStore)) \<and>
   deleteTask ''zzz'' (deleteTask ''a'' sampleStore) \<noteq> deleteTask ''a'' sampleStore"
  by (simp add: sampleStore_tasks deleteTask_def)

section \<open>Delete and undo\<close>

text \<open>
  C6, as the code has it: when the collection holds a task with id \<open>tid\<close>,
  \<open>deleteTask tid\<close> followed by an \<open>undoDelete\<close> called through the callback of the
  render that follows the delete gives a collection that ends with a task of the
  collection that has this id, with every field as it was, and an empty undo slot;
  an \<open>undoDelete\<close> called through the callback of the render that follows that, or through
  any callback that captured an empty slot, changes nothing.
\<close>

theorem delete_then_undo:
  assumes "tid \<in> task_id ` set (tasks s)"
  shows "\<exists>t \<in> set (tasks s). task_id t = tid \<and>
           undoDelete_rendered (deleteTask tid s)
             = \<lparr>tasks = filter (\<lambda>u. task_id u \<noteq> tid) (tasks s) @ [t], lastDeleted = None\<rparr> \<and>
           undoDelete_rendered (undoDelete_rendered (deleteTask tid s))
             = undoDelete_rendered (deleteTask tid s) \<and>
           undoDelete None s' = s'"
proof -
  from assms obtain t where t: "find (\<lambda>u. task_id u = tid) (tasks s) = Some t"
    by (cases "find (\<lambda>u. task_id u = tid) (tasks s)") (auto simp: find_None_iff)
  then have "t \<in> set (tasks s)" "task_id t = tid"
    by (auto simp: find_Some_iff)
  moreover have "undoDelete_rendered (deleteTask tid s)
      = \<lparr>tasks = filter (\<lambda>u. task_id u \<noteq> tid) (tasks s) @ [t], lastDeleted = None\<rparr>"
    using t by (simp add: undoDelete_rendered_def undoDelete_def deleteTask_def)
  moreover have "undoDelete_rendered (undoDelete_rendered (deleteTask tid s))
      = undoDelete_rendered (deleteTask tid s)"
    using t by (simp add: undoDelete_rendered_def undoDelete_def deleteTask_def)
  moreover have "undoDelete None s' = s'"
    by (simp add: undoDelete_def)
  ultimately show ?thesis
    by blast
qed

theorem delete_then_undo_witness:
  "''a'' \<in> task_id ` set (tasks sampleStore) \<and>
   tasks (undoDelete_rendered (deleteTask ''a'' sampleStore))
     = [tasks sampleStore ! 1, tasks sampleStore ! 0] \<and>
   lastDeleted (undoDelete_rendered (deleteTask ''a'' sampleStore)) = None \<and>
   undoDelete_rendered (undoDelete_rendered (deleteTask ''a'' sampleStore))
     = undoDelete_rendered (deleteTask ''a'' sampleStore)"
proof -
  have h: "''a'' \<in> task_id ` set (tasks sampleStore)"
    by (simp add: sampleStore_tasks)
  from delete_then_undo [OF h] obtain t where
    "t \<in> set (tasks sampleStore)" "task_id t = ''a''"
    "undoDelete_rendered (deleteTask ''a'' sampleStore)
       = \<lparr>tasks = filter (\<lambda>u. task_id u \<noteq> ''a'') (tasks sampleStore) @ [t], lastDeleted = None\<rparr>"
    "undoDelete_rendered (undoDelete_rendered (deleteTask ''a'' sampleStore))
       = undoDelete_rendered (deleteTask ''a'' sampleStore)"
    by blast
  then show ?thesis
    using h by (auto simp: sampleStore_tasks)
qed

text \<open>
  C6 as stated fails when the calls are made through the callbacks of one render. The
  render of the two-task store captured an empty slot, so \<open>deleteTask ''a''\<close> followed
  at once by its \<open>undoDelete\<close> restores nothing and leaves the task in the slot. And
  two calls of the \<open>undoDelete\<close> of the render that follows the delete both append the
  held task.
\<close>

theorem undoDelete_same_render:
  "lastDeleted sampleStore = None \<and>
   map task_id (tasks (undoDelete (lastDeleted sampleStore) (deleteTask ''a'' sampleStore)))
     = [''b''] \<and>
   lastDeleted (undoDelete (lastDeleted sampleStore) (deleteTask ''a'' sampleStore)) \<noteq> None \<and>
   map task_id (tasks (undoDelete (lastDeleted (deleteTask ''a'' sampleStore))
      (undoDelete (lastDeleted (deleteTask ''a'' sampleStore)) (deleteTask ''a'' sampleStore))))
     = [''b'', ''a'', ''a'']"
  by (simp add: sampleStore_tasks deleteTask_def undoDelete_def)

section \<open>Unique ids\<close>

text \<open>
  C1 fails on the code. Adding \<open>{id: a}\<close>, \<open>{id: a-2}\<close> and \<open>{id: a}\<close> to the empty
  store suffixes the third id with the length 2 of the collection, which gives the id of
  the second task again. And \<open>undoDelete\<close>, called through the callback of the latest
  render, puts back a task whose id was taken by a task added after the delete.
\<close>

theorem addTask_duplicate_id:
  "map task_id (tasks (addTask env (withId ''a'') (addTask env (withId ''a-2'')
      (addTask env (withId ''a'') emptyStore)))) = [''a'', ''a-2'', ''a-2''] \<and>
   map task_id (tasks (undoDelete_rendered (addTask env (withId ''a'') (deleteTask ''a''
      (addTask env (withId ''a'') emptyStore))))) = [''a'', ''a'']"
  by (simp add: addTask_def undoDelete_rendered_def undoDelete_def deleteTask_def emptyStore_def withId_def
      emptyRecord_def Let_def trim_def isSpace_def decimal.simps digit_def)

text \<open>
  C5 fails on the code. For the array of \<open>{id: a}\<close>, \<open>{id: a-2}\<close>, \<open>{id: a}\<close> the third
  id collides and is suffixed with its index 2, which gives the id of the second record
  again: two tasks of the result have the id \<open>a-2\<close>.
\<close>

theorem normalizeTasks_duplicate_id:
  "map_sum id (map task_id) (normalizeTasks sampleEnv
      (Some [Some (withId ''a''), Some (withId ''a-2''), Some (withId ''a'')]))
    = Inr [''a'', ''a-2'', ''a-2'']"
  by (simp add: run_defs)

section \<open>CSV\<close>

text \<open>
  C9 fails on the code for the id column. A task added with the id \<open>a,b\<close> is written
  with its id as it is, not wrapped in quotes, so its row has one column more than the
  header.
\<close>

theorem toCSV_id_unquoted:
  "toCSV env (tasks (addTask env (withId ''a,b'') emptyStore))
     = ''id,title,revenue,timeTaken,priority,status,notes'' @ [CHR 0x0A] @
       ''a,b,Untitled Task,'' @ NumberToString env 0 @ '','' @ NumberToString env 1
       @ '',Low,Todo,''"
  by (simp add: toCSV_def csvRow_def headers_def escapeCsv_def addTask_def emptyStore_def
      withId_def emptyRecord_def Let_def trim_def isSpace_def revenueOf_def timeTakenOf_def
      priorityOf_def statusOf_def)

section \<open>The loop of normalizeTasks\<close>

lemma normalizeLoop_Inr:
  "normalizeLoop env xs idx seen out = Inr res \<Longrightarrow>
     \<exists>ys. res = out @ ys \<and> length ys = length xs \<and>
       (\<forall>i < length xs. \<exists>seen'. normalizeRecord env (idx + i) seen' (orEmpty (xs ! i)) = Inr (ys ! i))"
proof (induction xs arbitrary: idx seen out res)
  case Nil
  then show ?case by simp
next
  case (Cons x xs)
  from Cons.prems obtain task where
    task: "normalizeRecord env idx seen (orEmpty x) = Inr task" and
    rest: "normalizeLoop env xs (Suc idx) (insert (task_id task) seen) (out @ [task]) = Inr res"
    by (auto split: sum.splits)
  from Cons.IH [OF rest] obtain ys where
    ys: "res = (out @ [task]) @ ys" "length ys = length xs"
      "\<forall>i < length xs. \<exists>seen'. normalizeRecord env (Suc idx + i) seen' (orEmpty (xs ! i)) = Inr (ys ! i)"
    by blast
  have "\<forall>i < length (x # xs). \<exists>seen'.
          normalizeRecord env (idx + i) seen' (orEmpty ((x # xs) ! i)) = Inr ((task # ys) ! i)"
  proof (intro allI impI)
    fix i assume i: "i < length (x # xs)"
    show "\<exists>seen'. normalizeRecord env (idx + i) seen' (orEmpty ((x # xs) ! i)) = Inr ((task # ys) ! i)"
    proof (cases i)
      case 0
      then show ?thesis using task by auto
    next
      case (Suc j)
      then have "j < length xs" using i by simp
      then show ?thesis using ys(3) Suc by auto
    qed
  qed
  then show ?case using ys(1,2) by (intro exI [of _ "task # ys"]) simp
qed

lemma normalizeTasks_Inr:
  assumes "normalizeTasks env input = Inr out"
  shows "length out = length (inputArray input)"
    and "i < length out \<Longrightarrow>
      \<exists>seen'. normalizeRecord env i seen' (orEmpty (inputArray input ! i)) = Inr (out ! i)"
  using normalizeLoop_Inr [OF assms [unfolded normalizeTasks_def]] by auto

text \<open>
  The loop returns a result when no record supplies a \<open>createdAt\<close> and, at every index,
  the synthetic date is valid and the day after it, read back from its string, is valid.
\<close>

lemma normalizeRecord_returns:
  assumes "\<not> truthy (raw_createdAt t)"
    and "fallbackDate env idx = Some d"
    and "dayAfter env (toISOString env d) \<noteq> None"
  shows "\<exists>task. normalizeRecord env idx seen t = Inr task"
  using assms
  by (auto simp: normalizeRecord_def Let_def Date_toISOString_def split: sum.splits option.splits)

lemma normalizeLoop_returns:
  assumes "\<forall>x \<in> set xs. \<not> truthy (raw_createdAt (orEmpty x))"
    and "\<forall>i < length xs. \<exists>d. fallbackDate env (idx + i) = Some d
           \<and> dayAfter env (toISOString env d) \<noteq> None"
  shows "\<exists>res. normalizeLoop env xs idx seen out = Inr res"
  using assms
proof (induction xs arbitrary: idx seen out)
  case Nil
  then show ?case by simp
next
  case (Cons x xs)
  from Cons.prems(2) [rule_format, of 0] obtain d where
    "fallbackDate env idx = Some d" "dayAfter env (toISOString env d) \<noteq> None"
    by auto
  with Cons.prems(1) obtain task where
    task: "normalizeRecord env idx seen (orEmpty x) = Inr task"
    using normalizeRecord_returns [of "orEmpty x" env idx d seen] by auto
  have "\<forall>i < length xs. \<exists>d. fallbackDate env (Suc idx + i) = Some d
           \<and> dayAfter env (toISOString env d) \<noteq> None"
  proof (intro allI impI)
    fix i assume "i < length xs"
    then have "Suc i < length (x # xs)" by simp
    from Cons.prems(2) [rule_format, OF this]
    show "\<exists>d. fallbackDate env (Suc idx + i) = Some d \<and> dayAfter env (toISOString env d) \<noteq> None"
      by simp
  qed
  with Cons.prems(1) have "\<exists>res. normalizeLoop env xs (Suc idx) (insert (task_id task) seen)
      (out @ [task]) = Inr res"
    by (intro Cons.IH) auto
  then show ?case
    using task by simp
qed

lemma normalizeTasks_returns:
  assumes "\<forall>x \<in> set (inputArray input). \<not> truthy (raw_createdAt (orEmpty x))"
    and "\<forall>i < length (inputArray input). \<exists>d. fallbackDate env i = Some d
           \<and> dayAfter env (toISOString env d) \<noteq> None"
  shows "\<exists>out. normalizeTasks env input = Inr out"
  unfolding normalizeTasks_def using assms by (intro normalizeLoop_returns) auto

lemma map_sum_Some_Inr: "map_sum id Some x = Inr y \<longleftrightarrow> (\<exists>z. x = Inr z \<and> y = Some z)"
  by (cases x) auto

lemma normalizeRecord_fields:
  assumes "normalizeRecord env idx seen t = Inr task"
  shows "timeTaken task = timeTakenOf (toNumber env (raw_timeTaken t)) (Fin 1)"
    and "priority task = priorityOf (raw_priority t) Low"
    and "status task = statusOf (raw_status t) Todo"
    and "status task = Done \<Longrightarrow> completedAt task \<noteq> None"
    and "status task \<noteq> Done \<Longrightarrow> completedAt task = stringOrUndefined (raw_completedAt t)"
    and "\<not> absent (stringOrUndefined (raw_completedAt t)) \<Longrightarrow>
           completedAt task = stringOrUndefined (raw_completedAt t)"
  using assms
  by (auto simp: normalizeRecord_def Let_def absent_def map_sum_Some_Inr split: sum.splits if_splits)

section \<open>The time taken\<close>

lemma timeTakenOf_spec: "timeTakenOf x (Fin 1) = specTimeTaken x"
  by (cases x) (simp_all add: timeTakenOf_def specTimeTaken_def round_def max_def)

lemma wholeTime_spec: "wholeTime (specTimeTaken x)"
  by (cases x) (simp_all add: wholeTime_def specTimeTaken_def)

lemma addTask_tasks:
  "\<exists>t. tasks (addTask env task s) = tasks s @ [t] \<and>
     timeTaken t = timeTakenOf (toNumber env (raw_timeTaken task)) (Fin 1)"
  by (simp add: addTask_def Let_def)

lemma sampleInput_normalized: "normalizeTasks sampleEnv sampleInput = Inr sampleOutput"
  by (simp add: sampleInput_def sampleOutput_def run_defs)

lemma timeTakenOf_wholeTime: "wholeTime d \<Longrightarrow> wholeTime (timeTakenOf x d)"
  by (cases x) (simp_all add: timeTakenOf_def wholeTime_def max_def)

lemma mergePatch_wholeTime:
  "wholeTime (timeTaken t) \<Longrightarrow> wholeTime (timeTaken (mergePatch env patch t))"
  by (simp add: mergePatch_fields timeTakenOf_wholeTime)

lemma wholeTime_1: "wholeTime (Fin 1)"
  by (simp add: wholeTime_def)

lemma updateTask_wholeTime:
  assumes "\<forall>t \<in> set (tasks s). wholeTime (timeTaken t)"
  shows "\<forall>t \<in> set (tasks (updateTask env tid patch s)). wholeTime (timeTaken t)"
  using assms by (auto simp: updateTask_def Let_def wholeTime_1 mergePatch_wholeTime)

text \<open>
  C7: \<open>normalizeTasks\<close> and \<open>addTask\<close> give every task the \<open>timeTaken\<close> of the rule
  (1 when the coerced number is not finite or not above 0, else the number rounded to the
  nearest integer and floored at 1), which is an integer of at least 1; and \<open>updateTask\<close>
  keeps every \<open>timeTaken\<close> of the collection such an integer.
\<close>

theorem timeTaken_normalized:
  "(normalizeTasks env input = Inr out \<longrightarrow>
      length out = length (inputArray input) \<and>
      (\<forall>i < length out.
         timeTaken (out ! i)
           = specTimeTaken (toNumber env (raw_timeTaken (orEmpty (inputArray input ! i)))) \<and>
         wholeTime (timeTaken (out ! i)))) \<and>
   timeTaken (last (tasks (addTask env task s)))
     = specTimeTaken (toNumber env (raw_timeTaken task)) \<and>
   wholeTime (timeTaken (last (tasks (addTask env task s)))) \<and>
   ((\<forall>t \<in> set (tasks s). wholeTime (timeTaken t)) \<longrightarrow>
      (\<forall>t \<in> set (tasks (updateTask env tid patch s)). wholeTime (timeTaken t)))"
proof (intro conjI impI allI)
  assume ok: "normalizeTasks env input = Inr out"
  show "length out = length (inputArray input)"
    by (rule normalizeTasks_Inr(1) [OF ok])
  fix i assume "i < length out"
  from normalizeTasks_Inr(2) [OF ok this] obtain seen' where
    "normalizeRecord env i seen' (orEmpty (inputArray input ! i)) = Inr (out ! i)" ..
  then have tt: "timeTaken (out ! i)
      = specTimeTaken (toNumber env (raw_timeTaken (orEmpty (inputArray input ! i))))"
    by (simp add: normalizeRecord_fields(1) timeTakenOf_spec)
  show "timeTaken (out ! i)
      = specTimeTaken (toNumber env (raw_timeTaken (orEmpty (inputArray input ! i))))"
    by (rule tt)
  show "wholeTime (timeTaken (out ! i))"
    by (simp add: tt wholeTime_spec)
next
  obtain t where t: "tasks (addTask env task s) = tasks s @ [t]"
     "timeTaken t = timeTakenOf (toNumber env (raw_timeTaken task)) (Fin 1)"
    using addTask_tasks by blast
  then show a: "timeTaken (last (tasks (addTask env task s)))
     = specTimeTaken (toNumber env (raw_timeTaken task))"
    by (simp add: timeTakenOf_spec)
  show "wholeTime (timeTaken (last (tasks (addTask env task s))))"
    by (simp add: a wholeTime_spec)
next
  assume "\<forall>t \<in> set (tasks s). wholeTime (timeTaken t)"
  then show "\<forall>t \<in> set (tasks (updateTask env tid patch s)). wholeTime (timeTaken t)"
    by (rule updateTask_wholeTime)
qed


lemma sampleInput_array:
  "inputArray sampleInput = [Some sampleRecord, None,
     Some (emptyRecord\<lparr>raw_timeTaken := JNum (Fin (- 4)), raw_priority := JStr ''Urgent'',
       raw_status := JStr ''In Progress'', raw_completedAt := JStr ''2024-01-01T00:00:00.000Z''\<rparr>)]"
  by (simp add: sampleInput_def inputArray_def)

theorem timeTaken_normalized_witness:
  "normalizeTasks sampleEnv sampleInput = Inr sampleOutput \<and>
   timeTaken (sampleOutput ! 0) = specTimeTaken (Fin (5 / 2)) \<and>
   timeTaken (sampleOutput ! 2) = specTimeTaken (Fin (- 4)) \<and>
   wholeTime (timeTaken (sampleOutput ! 2)) \<and>
   list_all (\<lambda>t. wholeTime (timeTaken t)) (tasks sampleStore) \<and>
   list_all (\<lambda>t. wholeTime (timeTaken t))
     (tasks (updateTask sampleEnv ''b'' (emptyRecord\<lparr>raw_timeTaken := JNum (Fin (- 5))\<rparr>)
        sampleStore))"
proof -
  note inst = timeTaken_normalized [of sampleEnv sampleInput sampleOutput sampleRecord
      sampleStore "''b''" "emptyRecord\<lparr>raw_timeTaken := JNum (Fin (- 5))\<rparr>"]
  have every: "\<forall>i < length sampleOutput.
      timeTaken (sampleOutput ! i)
        = specTimeTaken (toNumber sampleEnv (raw_timeTaken (orEmpty (inputArray sampleInput ! i)))) \<and>
      wholeTime (timeTaken (sampleOutput ! i))"
    using inst sampleInput_normalized by blast
  have i0: "0 < length sampleOutput" and i2: "2 < length sampleOutput"
    by (simp_all add: sampleOutput_def)
  have "timeTaken (sampleOutput ! 0) = specTimeTaken (Fin (5 / 2))"
    using every [rule_format, OF i0] by (simp add: sampleInput_array orEmpty_def sampleRecord_def)
  moreover have "timeTaken (sampleOutput ! 2) = specTimeTaken (Fin (- 4))"
       "wholeTime (timeTaken (sampleOutput ! 2))"
    using every [rule_format, OF i2] by (auto simp: sampleInput_array orEmpty_def emptyRecord_def)
  moreover have pre: "\<forall>t \<in> set (tasks sampleStore). wholeTime (timeTaken t)"
    by (simp add: sampleStore_tasks wholeTime_def)
  moreover have "\<forall>t \<in> set (tasks (updateTask sampleEnv ''b''
      (emptyRecord\<lparr>raw_timeTaken := JNum (Fin (- 5))\<rparr>) sampleStore)). wholeTime (timeTaken t)"
    using inst pre by blast
  ultimately show ?thesis
    using sampleInput_normalized by (simp add: list_all_iff)
qed

section \<open>Status and priority\<close>

text \<open>
  C8: in the result of \<open>normalizeTasks\<close>, the status of a record is the supplied one when
  that is \<open>Todo\<close>, \<open>In Progress\<close> or \<open>Done\<close>, and \<open>Todo\<close> otherwise; its priority is
  the supplied one when that is \<open>High\<close>, \<open>Medium\<close> or \<open>Low\<close>, and \<open>Low\<close> otherwise.
\<close>

theorem enums_normalized:
  assumes "normalizeTasks env input = Inr out" and "i < length out"
  shows "(if raw_status (orEmpty (inputArray input ! i))
              \<in> {JStr ''Todo'', JStr ''In Progress'', JStr ''Done''}
          then JStr (statusText (status (out ! i))) = raw_status (orEmpty (inputArray input ! i))
          else status (out ! i) = Todo) \<and>
         (if raw_priority (orEmpty (inputArray input ! i))
              \<in> {JStr ''High'', JStr ''Medium'', JStr ''Low''}
          then JStr (priorityText (priority (out ! i))) = raw_priority (orEmpty (inputArray input ! i))
          else priority (out ! i) = Low)"
proof -
  from normalizeTasks_Inr(2) [OF assms] obtain seen' where
    "normalizeRecord env i seen' (orEmpty (inputArray input ! i)) = Inr (out ! i)" ..
  then have "status (out ! i) = statusOf (raw_status (orEmpty (inputArray input ! i))) Todo"
    and "priority (out ! i) = priorityOf (raw_priority (orEmpty (inputArray input ! i))) Low"
    by (simp_all add: normalizeRecord_fields)
  then show ?thesis
    by (simp add: statusOf_def priorityOf_def)
qed

theorem enums_normalized_witness:
  "normalizeTasks sampleEnv sampleInput = Inr sampleOutput \<and> 2 < length sampleOutput \<and>
   raw_status (orEmpty (inputArray sampleInput ! 2)) = JStr ''In Progress'' \<and>
   status (sampleOutput ! 2) = InProgress \<and>
   raw_priority (orEmpty (inputArray sampleInput ! 2)) = JStr ''Urgent'' \<and>
   priority (sampleOutput ! 2) = Low"
proof -
  have i2: "2 < length sampleOutput"
    by (simp add: sampleOutput_def)
  have raw: "raw_status (orEmpty (inputArray sampleInput ! 2)) = JStr ''In Progress''"
      "raw_priority (orEmpty (inputArray sampleInput ! 2)) = JStr ''Urgent''"
    by (simp_all add: sampleInput_array orEmpty_def emptyRecord_def)
  have "JStr (statusText (status (sampleOutput ! 2))) = JStr ''In Progress''"
      "priority (sampleOutput ! 2) = Low"
    using enums_normalized [OF sampleInput_normalized i2] by (simp_all add: raw)
  moreover have "status (sampleOutput ! 2) = InProgress"
    using calculation(1) by (cases "status (sampleOutput ! 2)") simp_all
  ultimately show ?thesis
    using sampleInput_normalized i2 raw by simp
qed

section \<open>What an operation leaves alone\<close>

lemma updateTask_nth:
  assumes "i < length (tasks s)"
  shows "tasks (updateTask env tid patch s) ! i
     = (if task_id (tasks s ! i) \<noteq> tid then tasks s ! i
        else if le0 (toNumber env (nullish (raw_timeTaken patch)
                  (JNum (timeTaken (mergePatch env patch (tasks s ! i))))))
        then (mergePatch env patch (tasks s ! i))\<lparr>timeTaken := Fin 1\<rparr>
        else mergePatch env patch (tasks s ! i))"
  using assms by (simp add: updateTask_def Let_def)

lemma updateTask_length: "length (tasks (updateTask env tid patch s)) = length (tasks s)"
  by (simp add: updateTask_def Let_def)

lemma updateTask_lastDeleted: "lastDeleted (updateTask env tid patch s) = lastDeleted s"
  by (simp add: updateTask_def Let_def)

lemma updateTask_ids: "map task_id (tasks (updateTask env tid patch s)) = map task_id (tasks s)"
  by (rule nth_equalityI) (simp_all add: updateTask_length updateTask_nth)

text \<open>
  C10: \<open>addTask\<close> keeps the collection as it is and appends one task at its end;
  \<open>updateTask\<close> keeps the length of the collection, the id at every position, and every
  task whose id is not the target. Neither touches the undo slot.
\<close>

theorem add_update_frame:
  "(\<exists>t. tasks (addTask env task s) = tasks s @ [t]) \<and>
   lastDeleted (addTask env task s) = lastDeleted s \<and>
   length (tasks (updateTask env tid patch s)) = length (tasks s) \<and>
   map task_id (tasks (updateTask env tid patch s)) = map task_id (tasks s) \<and>
   lastDeleted (updateTask env tid patch s) = lastDeleted s \<and>
   (\<forall>i < length (tasks s). task_id (tasks s ! i) \<noteq> tid \<longrightarrow>
      tasks (updateTask env tid patch s) ! i = tasks s ! i)"
proof (intro conjI allI impI)
  show "\<exists>t. tasks (addTask env task s) = tasks s @ [t]"
    using addTask_tasks by blast
  show "lastDeleted (addTask env task s) = lastDeleted s"
    by (simp add: addTask_def Let_def)
  show "length (tasks (updateTask env tid patch s)) = length (tasks s)"
    by (rule updateTask_length)
  show "map task_id (tasks (updateTask env tid patch s)) = map task_id (tasks s)"
    by (rule updateTask_ids)
  show "lastDeleted (updateTask env tid patch s) = lastDeleted s"
    by (rule updateTask_lastDeleted)
next
  fix i assume "i < length (tasks s)" "task_id (tasks s ! i) \<noteq> tid"
  then show "tasks (updateTask env tid patch s) ! i = tasks s ! i"
    by (simp add: updateTask_nth)
qed

theorem add_update_frame_witness:
  "0 < length (tasks sampleStore) \<and> task_id (tasks sampleStore ! 0) \<noteq> ''b'' \<and>
   tasks (updateTask sampleEnv ''b'' (emptyRecord\<lparr>raw_title := JStr ''New''\<rparr>) sampleStore) ! 0
     = tasks sampleStore ! 0 \<and>
   title (tasks (updateTask sampleEnv ''b'' (emptyRecord\<lparr>raw_title := JStr ''New''\<rparr>) sampleStore) ! 1)
     = ''New''"
proof -
  have h: "0 < length (tasks sampleStore)" "task_id (tasks sampleStore ! 0) \<noteq> ''b''"
    by (simp_all add: sampleStore_tasks)
  have "\<forall>i < length (tasks sampleStore). task_id (tasks sampleStore ! i) \<noteq> ''b'' \<longrightarrow>
      tasks (updateTask sampleEnv ''b'' (emptyRecord\<lparr>raw_title := JStr ''New''\<rparr>) sampleStore) ! i
        = tasks sampleStore ! i"
    using add_update_frame [of sampleEnv sampleRecord sampleStore "''b''"
        "emptyRecord\<lparr>raw_title := JStr ''New''\<rparr>"] by blast
  then have "tasks (updateTask sampleEnv ''b'' (emptyRecord\<lparr>raw_title := JStr ''New''\<rparr>) sampleStore) ! 0
     = tasks sampleStore ! 0"
    using h by blast
  moreover have "title (tasks (updateTask sampleEnv ''b'' (emptyRecord\<lparr>raw_title := JStr ''New''\<rparr>)
      sampleStore) ! 1) = ''New''"
    by (simp add: updateTask_nth sampleStore_tasks mergePatch_fields emptyRecord_def trim_def isSpace_def)
  ultimately show ?thesis
    using h by simp
qed

section \<open>completedAt and the status\<close>


lemma timeTaken_update_completedIffDone [simp]:
  "completedIffDone (t\<lparr>timeTaken := x\<rparr>) = completedIffDone t"
  by (simp add: completedIffDone_def)






section \<open>The fields after an update\<close>

lemma revenueOf_cases: "revenueOf x d = (case x of Fin r \<Rightarrow> Fin r | _ \<Rightarrow> d)"
  by (cases x) (simp_all add: revenueOf_def)

lemma timeTakenOf_cases:
  "timeTakenOf x d = (case x of Fin r \<Rightarrow> if 0 < r then Fin (of_int (max 1 (round r))) else d
                      | _ \<Rightarrow> d)"
  by (cases x) (simp_all add: timeTakenOf_def round_def max_def)

lemma patched_timeTaken:
  "timeTaken (if le0 (toNumber env (nullish v (JNum (timeTaken m)))) then m\<lparr>timeTaken := Fin 1\<rparr> else m)
     = (if le0 (toNumber env (nullish v (JNum (timeTaken m)))) then Fin 1 else timeTaken m)"
  by simp

lemma final_timeTaken:
  "(if le0 (toNumber env (nullish v (JNum (if v \<noteq> JUndefined then timeTakenOf (toNumber env v) d else d))))
    then Fin 1 else (if v \<noteq> JUndefined then timeTakenOf (toNumber env v) d else d))
   = (if v = JUndefined \<or> v = JNull then (if le0 d then Fin 1 else d)
      else case toNumber env v of
             Fin r \<Rightarrow> if 0 < r then Fin (of_int (max 1 (round r))) else Fin 1
           | NegInf \<Rightarrow> Fin 1
           | _ \<Rightarrow> d)"
proof (cases "v = JUndefined \<or> v = JNull")
  case True
  then show ?thesis
    by (auto simp: nullish_def timeTakenOf_def)
next
  case False
  then show ?thesis
    by (cases "toNumber env v") (auto simp: nullish_def timeTakenOf_cases)
qed

text \<open>
  C3, as the code has it, for a task of the collection whose id is the target. The id and
  \<open>createdAt\<close> stay. A field absent from the patch keeps its value. A title that is
  not a non-blank string is replaced by \<open>Untitled Task\<close>; a valid one is trimmed. A
  revenue that does not coerce to a finite number, a priority or status outside its enum
  and notes that are not a string are ignored. A \<open>timeTaken\<close> that coerces to a finite
  number above 0 is rounded and floored at 1; one that coerces to \<open>NaN\<close> or
  \<open>+Infinity\<close> is ignored; and the result is 1 when the patch's \<open>timeTaken\<close> coerces to
  a number at or below 0, or when the patch has none (or \<open>null\<close>) and the task's own is
  at or below 0.
\<close>

theorem updateTask_fields:
  assumes "i < length (tasks s)" and "task_id (tasks s ! i) = tid"
  shows "task_id (tasks (updateTask env tid patch s) ! i) = tid \<and>
    createdAt (tasks (updateTask env tid patch s) ! i) = createdAt (tasks s ! i) \<and>
    title (tasks (updateTask env tid patch s) ! i)
      = (case raw_title patch of
           JUndefined \<Rightarrow> title (tasks s ! i)
         | JStr x \<Rightarrow> if trim x \<noteq> [] then trim x else ''Untitled Task''
         | _ \<Rightarrow> ''Untitled Task'') \<and>
    revenue (tasks (updateTask env tid patch s) ! i)
      = (case toNumber env (raw_revenue patch) of Fin r \<Rightarrow> Fin r | _ \<Rightarrow> revenue (tasks s ! i)) \<and>
    timeTaken (tasks (updateTask env tid patch s) ! i)
      = (if raw_timeTaken patch = JUndefined \<or> raw_timeTaken patch = JNull
         then (if le0 (timeTaken (tasks s ! i)) then Fin 1 else timeTaken (tasks s ! i))
         else case toNumber env (raw_timeTaken patch) of
                Fin r \<Rightarrow> if 0 < r then Fin (of_int (max 1 (round r))) else Fin 1
              | NegInf \<Rightarrow> Fin 1
              | _ \<Rightarrow> timeTaken (tasks s ! i)) \<and>
    priority (tasks (updateTask env tid patch s) ! i)
      = (if raw_priority patch = JStr ''High'' then High
         else if raw_priority patch = JStr ''Medium'' then Medium
         else if raw_priority patch = JStr ''Low'' then Low
         else priority (tasks s ! i)) \<and>
    status (tasks (updateTask env tid patch s) ! i)
      = (if raw_status patch = JStr ''Todo'' then Todo
         else if raw_status patch = JStr ''In Progress'' then InProgress
         else if raw_status patch = JStr ''Done'' then Done
         else status (tasks s ! i)) \<and>
    task_notes (tasks (updateTask env tid patch s) ! i)
      = (case raw_notes patch of JStr x \<Rightarrow> x | _ \<Rightarrow> task_notes (tasks s ! i))"
proof -
  let ?old = "tasks s ! i" and ?new = "tasks (updateTask env tid patch s) ! i"
  let ?m = "mergePatch env patch ?old"
  have new: "?new = (if le0 (toNumber env (nullish (raw_timeTaken patch) (JNum (timeTaken ?m))))
                     then ?m\<lparr>timeTaken := Fin 1\<rparr> else ?m)"
    using assms by (simp add: updateTask_nth)
  have "task_id ?new = tid" "createdAt ?new = createdAt ?old"
    using assms(2) by (simp_all add: new mergePatch_fields)
  moreover have "title ?new = (case raw_title patch of
           JUndefined \<Rightarrow> title ?old
         | JStr x \<Rightarrow> if trim x \<noteq> [] then trim x else ''Untitled Task''
         | _ \<Rightarrow> ''Untitled Task'')"
    by (cases "raw_title patch") (simp_all add: new mergePatch_fields)
  moreover have "revenue ?new
      = (case toNumber env (raw_revenue patch) of Fin r \<Rightarrow> Fin r | _ \<Rightarrow> revenue ?old)"
    by (cases "raw_revenue patch") (simp_all add: new mergePatch_fields revenueOf_cases)
  moreover have "timeTaken ?new
      = (if raw_timeTaken patch = JUndefined \<or> raw_timeTaken patch = JNull
         then (if le0 (timeTaken ?old) then Fin 1 else timeTaken ?old)
         else case toNumber env (raw_timeTaken patch) of
                Fin r \<Rightarrow> if 0 < r then Fin (of_int (max 1 (round r))) else Fin 1
              | NegInf \<Rightarrow> Fin 1
              | _ \<Rightarrow> timeTaken ?old)"
  proof -
    have "timeTaken ?new
        = (if le0 (toNumber env (nullish (raw_timeTaken patch) (JNum (timeTaken ?m))))
           then Fin 1 else timeTaken ?m)"
      by (simp add: new)
    also have "\<dots> = (if raw_timeTaken patch = JUndefined \<or> raw_timeTaken patch = JNull
         then (if le0 (timeTaken ?old) then Fin 1 else timeTaken ?old)
         else case toNumber env (raw_timeTaken patch) of
                Fin r \<Rightarrow> if 0 < r then Fin (of_int (max 1 (round r))) else Fin 1
              | NegInf \<Rightarrow> Fin 1
              | _ \<Rightarrow> timeTaken ?old)"
      unfolding mergePatch_fields by (rule final_timeTaken)
    finally show ?thesis .
  qed
  moreover have "priority ?new
      = (if raw_priority patch = JStr ''High'' then High
         else if raw_priority patch = JStr ''Medium'' then Medium
         else if raw_priority patch = JStr ''Low'' then Low
         else priority ?old)"
    by (auto simp: new mergePatch_fields priorityOf_def)
  moreover have "status ?new
      = (if raw_status patch = JStr ''Todo'' then Todo
         else if raw_status patch = JStr ''In Progress'' then InProgress
         else if raw_status patch = JStr ''Done'' then Done
         else status ?old)"
    by (auto simp: new mergePatch_fields statusOf_def)
  moreover have "task_notes ?new = (case raw_notes patch of JStr x \<Rightarrow> x | _ \<Rightarrow> task_notes ?old)"
    by (cases "raw_notes patch") (simp_all add: new mergePatch_fields)
  ultimately show ?thesis
    by blast
qed

text \<open>
  C3 as stated fails: a blank title in the patch replaces the title \<open>Ship it\<close> by the
  default \<open>Untitled Task\<close>, and a \<open>timeTaken\<close> of -5 in the patch replaces the
  \<open>timeTaken\<close> 3 by 1, though the value was 3 after the patch was sanitized.
\<close>

theorem updateTask_title_default_timeTaken_forced:
  "title (tasks sampleStore ! 1) = ''Ship it'' \<and>
   title (tasks (updateTask sampleEnv ''b'' (emptyRecord\<lparr>raw_title := JStr ''  ''\<rparr>) sampleStore) ! 1)
     = ''Untitled Task'' \<and>
   timeTaken (tasks sampleStore ! 1) = Fin 3 \<and>
   timeTaken (tasks (updateTask sampleEnv ''b'' (emptyRecord\<lparr>raw_timeTaken := JNum (Fin (- 5))\<rparr>)
      sampleStore) ! 1) = Fin 1"
  by (simp add: sampleStore_tasks run_defs)

theorem updateTask_fields_witness:
  "1 < length (tasks sampleStore) \<and> task_id (tasks sampleStore ! 1) = ''b'' \<and>
   title (tasks (updateTask sampleEnv ''b''
       (emptyRecord\<lparr>raw_revenue := JStr ''oops'', raw_timeTaken := JNum (Fin (7 / 2))\<rparr>) sampleStore) ! 1)
     = ''Ship it'' \<and>
   revenue (tasks (updateTask sampleEnv ''b''
       (emptyRecord\<lparr>raw_revenue := JStr ''oops'', raw_timeTaken := JNum (Fin (7 / 2))\<rparr>) sampleStore) ! 1)
     = Fin 100 \<and>
   timeTaken (tasks (updateTask sampleEnv ''b''
       (emptyRecord\<lparr>raw_revenue := JStr ''oops'', raw_timeTaken := JNum (Fin (7 / 2))\<rparr>) sampleStore) ! 1)
     = Fin 4"
proof -
  have h: "1 < length (tasks sampleStore)" "task_id (tasks sampleStore ! 1) = ''b''"
    by (simp_all add: sampleStore_tasks)
  have num: "StringToNumber sampleEnv ''oops'' = NaN"
    by (simp add: sampleEnv_def sampleStringToNumber_def parseDigits_def)
  have old: "title (tasks sampleStore ! 1) = ''Ship it''" "revenue (tasks sampleStore ! 1) = Fin 100"
    by (simp_all add: sampleStore_tasks)
  note inst = updateTask_fields [OF h, of sampleEnv
      "emptyRecord\<lparr>raw_revenue := JStr ''oops'', raw_timeTaken := JNum (Fin (7 / 2))\<rparr>"]
  have "title (tasks (updateTask sampleEnv ''b''
       (emptyRecord\<lparr>raw_revenue := JStr ''oops'', raw_timeTaken := JNum (Fin (7 / 2))\<rparr>) sampleStore) ! 1)
     = title (tasks sampleStore ! 1)"
    using inst by (simp add: emptyRecord_def)
  moreover have "revenue (tasks (updateTask sampleEnv ''b''
       (emptyRecord\<lparr>raw_revenue := JStr ''oops'', raw_timeTaken := JNum (Fin (7 / 2))\<rparr>) sampleStore) ! 1)
     = revenue (tasks sampleStore ! 1)"
    using inst by (simp add: emptyRecord_def num)
  moreover have "timeTaken (tasks (updateTask sampleEnv ''b''
       (emptyRecord\<lparr>raw_revenue := JStr ''oops'', raw_timeTaken := JNum (Fin (7 / 2))\<rparr>) sampleStore) ! 1)
     = Fin 4"
    using inst by (simp add: emptyRecord_def round_def)
  ultimately show ?thesis
    using h old by simp
qed

end
